theory Spec2Isabelle
  imports Complex_Main
begin

text \<open>
  A model of the Gaffer API client (\<open>GafferApiClient\<close>) and of two of the tools built on
  it. The network, the URL parser and the timer are an explicit world that every
  operation takes and gives back; a thrown error is an outcome; the retry loop is a
  terminating recursion on the attempt number. The repository holds two versions of the
  client: api-client.ts, and the one bundled in tools/get-upload-status.ts, which
  resolves the project id of a project token. Where a method exists in both, the bundled
  one carries the suffix \<open>2\<close>.
\<close>

section \<open>JavaScript values used by the client\<close>

text \<open>
  A number given as an option or read from a response is passed on as it is, without
  arithmetic: it is the rational it stands for, or \<open>NaN\<close>. Zero and \<open>NaN\<close> are falsy.
\<close>

datatype jsnum = Num rat | NaN

fun truthyNum :: "jsnum \<Rightarrow> bool" where
  "truthyNum (Num x) = (x \<noteq> 0)"
| "truthyNum NaN = False"

text \<open>
  The retry delay is computed, in doubles, from integers. Every integer up to
  \<open>MAX_SAFE_INTEGER\<close> in size is a double, and a product or maximum of such integers
  that stays in this range is computed without rounding: \<open>Exact\<close>. Beyond the range
  the result is rounded or infinite, and the model does not say which number it is:
  \<open>Inexact\<close> stands for a result that is not computed here. \<open>Math.max\<close> and \<open>*\<close>
  propagate \<open>NaN\<close>.
\<close>

datatype dnum = Exact int | NotANumber | Inexact

definition MAX_SAFE_INTEGER :: int where
  "MAX_SAFE_INTEGER = 9007199254740991"

definition safe :: "int \<Rightarrow> dnum" where
  "safe n = (if \<bar>n\<bar> \<le> MAX_SAFE_INTEGER then Exact n else Inexact)"

fun mathMax :: "dnum \<Rightarrow> dnum \<Rightarrow> dnum" where
  "mathMax NotANumber y = NotANumber"
| "mathMax x NotANumber = NotANumber"
| "mathMax (Exact a) (Exact b) = Exact (max a b)"
| "mathMax x y = Inexact"

fun times :: "dnum \<Rightarrow> dnum \<Rightarrow> dnum" where
  "times NotANumber y = NotANumber"
| "times x NotANumber = NotANumber"
| "times (Exact a) (Exact b) = safe (a * b)"
| "times x y = Inexact"

text \<open>
  Strings are lists of code units below 256. \<open>truthyStr\<close> is the truthiness of an optional
  string: \<open>undefined\<close> and the empty string are falsy.
\<close>

fun truthyStr :: "string option \<Rightarrow> bool" where
  "truthyStr None = False"
| "truthyStr (Some s) = (s \<noteq> [])"

definition startsWith :: "string \<Rightarrow> string \<Rightarrow> bool" where
  "startsWith s p = (take (length p) s = p)"

definition isWhiteSpace :: "char \<Rightarrow> bool" where
  "isWhiteSpace c =
     (c \<in> set [CHR 0x09, CHR 0x0A, CHR 0x0B, CHR 0x0C, CHR 0x0D, CHR 0x20, CHR 0xA0])"

definition trim :: "string \<Rightarrow> string" where
  "trim s = rev (dropWhile isWhiteSpace (rev (dropWhile isWhiteSpace s)))"

definition isDigit :: "char \<Rightarrow> bool" where
  "isDigit c = (c \<in> set ''0123456789'')"

definition digitVal :: "char \<Rightarrow> nat" where
  "digitVal c = of_char c - 48"

fun decimalValue :: "nat \<Rightarrow> string \<Rightarrow> nat" where
  "decimalValue acc [] = acc"
| "decimalValue acc (c # cs) = decimalValue (10 * acc + digitVal c) cs"

text \<open>
  \<open>Number.parseInt(s, 10)\<close>: leading white space is skipped, one sign is read, then the
  longest run of decimal digits; no digit at all gives \<open>NaN\<close>. The integer read is the
  result when it is a safe integer; a longer run of digits is rounded.
\<close>

definition parseInt :: "string \<Rightarrow> dnum" where
  "parseInt s =
     (let t = dropWhile isWhiteSpace s;
          neg = (t \<noteq> [] \<and> hd t = CHR ''-'');
          u = (if t \<noteq> [] \<and> (hd t = CHR ''-'' \<or> hd t = CHR ''+'') then tl t else t);
          ds = takeWhile isDigit u
      in if ds = [] then NotANumber
         else safe (if neg then - int (decimalValue 0 ds) else int (decimalValue 0 ds)))"

definition digitChar :: "nat \<Rightarrow> char" where
  "digitChar d = ''0123456789'' ! d"

fun showNat :: "nat \<Rightarrow> string" where
  "showNat n = (if n < 10 then [digitChar n] else showNat (n div 10) @ [digitChar (n mod 10)])"

declare showNat.simps [simp del]

text \<open>Thrown values: the class of the error and its message.\<close>

datatype errkind = PlainError | TypeErr | AbortErr | SyntaxErr

datatype jserror = JsError (errName: errkind) (errMessage: string)

datatype 'a outcome = Returns 'a | Throws jserror

text \<open>An outcome that is a thrown error.\<close>

fun fails :: "'a outcome \<Rightarrow> bool" where
  "fails (Throws e) = True"
| "fails (Returns v) = False"

section \<open>Credential classification (api-client.ts, detectTokenType)\<close>

datatype TokenType = UserToken | ProjectToken

definition detectTokenType :: "string \<Rightarrow> TokenType" where
  "detectTokenType token = (if startsWith token ''gaf_'' then UserToken else ProjectToken)"

section \<open>Response types (types.ts)\<close>

text \<open>
  An optional property of a decoded JSON object has three observable states: the key is
  missing (\<open>undefined\<close> when read), the value is \<open>null\<close>, or a value is there.
\<close>

datatype 'a field = Absent | Null | Present 'a

datatype TestStatus = passed | failed | skipped | pending

record TestHistoryEntryTest =
  test_name :: string
  test_status :: TestStatus
  test_durationMs :: jsnum
  test_filePath :: "string field"
  test_message :: "string field"

record TestHistoryEntry =
  testRunId :: string
  createdAt :: string
  branch :: "string field"
  commitSha :: "string field"
  test :: TestHistoryEntryTest

record TestHistorySummary =
  totalRuns :: jsnum
  passedRuns :: jsnum
  failedRuns :: jsnum
  passRate :: "jsnum field"
  searchedBy :: string
  searchValue :: string

record TestHistoryResponse =
  history :: "TestHistoryEntry list"
  summary :: TestHistorySummary

text \<open>
  The decoded body of a response, by the interface it satisfies: no JSON at all
  (\<open>response.json()\<close> rejects), the error envelope \<open>ApiErrorResponse\<close>, the project
  record \<open>{project: {id}}\<close>, a \<open>TestHistoryResponse\<close>, another JSON
  value (it has none of the properties \<open>error\<close>, \<open>project\<close>, \<open>history\<close>: an object of
  another interface, an array, a string, a number, a boolean), or the JSON value
  \<open>null\<close>, of which no property can be read. The message of an envelope is a string,
  as \<open>ApiErrorResponse\<close> declares it.
\<close>

datatype body =
    NotJson
  | JsonNull
  | ApiErrorBody (error_code: string) (error_message: string)
  | ProjectBody string
  | TestHistoryBody TestHistoryResponse
  | OtherBody string

section \<open>The network boundary\<close>

record response =
  status :: nat
  retryAfter :: "string option"
  body :: body

definition ok :: "response \<Rightarrow> bool" where
  "ok r = (200 \<le> status r \<and> status r \<le> 299)"

datatype qvalue = QStr string | QNum jsnum

text \<open>
  What one call of \<open>fetch\<close> is given: the credential header, and the URL, described by
  how the client builds it: \<open>new URL(url_input, url_base)\<close>, on which
  \<open>searchParams.set(key, String(value))\<close> is then called for the entries \<open>url_sets\<close>, in
  this order (the value is kept in place of its text). The method is always GET.
\<close>

record fetch_call =
  url_base :: string
  url_input :: string
  url_sets :: "(string \<times> qvalue) list"
  header_api_key :: string

datatype fetch_result = Response response | Rejects jserror

text \<open>
  The world outside the client: \<open>network w k call\<close> is what the \<open>k\<close>-th call of
  \<open>fetch\<close> in this process answers, \<open>fetched\<close> is the log of calls made and \<open>slept\<close>
  the log of delays passed to \<open>sleep\<close>, oldest first. An attempt that reaches its
  deadline of \<open>REQUEST_TIMEOUT_MS\<close> is a rejection with an \<open>AbortError\<close>.
  \<open>acceptsUrl w input base\<close> says whether the URL parser of the platform accepts
  \<open>new URL(input, base)\<close>; where it does not, the constructor throws a \<open>TypeError\<close>.
\<close>

record world =
  network :: "nat \<Rightarrow> fetch_call \<Rightarrow> fetch_result"
  acceptsUrl :: "string \<Rightarrow> string \<Rightarrow> bool"
  fetched :: "fetch_call list"
  slept :: "dnum list"

definition fetch :: "fetch_call \<Rightarrow> world \<Rightarrow> fetch_result \<times> world" where
  "fetch call w = (network w (length (fetched w)) call, w\<lparr>fetched := fetched w @ [call]\<rparr>)"


definition sleep :: "dnum \<Rightarrow> world \<Rightarrow> world" where
  "sleep ms w = w\<lparr>slept := slept w @ [ms]\<rparr>"

section \<open>Transport core (api-client.ts, GafferApiClient.request)\<close>

definition REQUEST_TIMEOUT_MS :: nat where
  "REQUEST_TIMEOUT_MS = 30000"

definition MAX_RETRIES :: nat where
  "MAX_RETRIES = 3"

definition INITIAL_RETRY_DELAY_MS :: int where
  "INITIAL_RETRY_DELAY_MS = 1000"

definition RETRYABLE_STATUS_CODES :: "nat list" where
  "RETRYABLE_STATUS_CODES = [401, 429, 500, 502, 503, 504]"

record GafferConfig =
  cfg_apiKey :: string
  cfg_baseUrl :: string

record client =
  apiKey :: string
  baseUrl :: string
  tokenType :: TokenType
  resolvedProjectId :: "string option"

definition stripTrailingSlash :: "string \<Rightarrow> string" where
  "stripTrailingSlash s = (if s \<noteq> [] \<and> last s = CHR ''/'' then butlast s else s)"

definition newClient :: "GafferConfig \<Rightarrow> client" where
  "newClient config =
     \<lparr>apiKey = cfg_apiKey config,
      baseUrl = stripTrailingSlash (cfg_baseUrl config),
      tokenType = detectTokenType (cfg_apiKey config),
      resolvedProjectId = None\<rparr>"

definition isUserToken :: "client \<Rightarrow> bool" where
  "isUserToken c = (tokenType c = UserToken)"

text \<open>
  \<open>errorData.error?.message || `API request failed: ${response.status}`\<close>, where
  \<open>errorData\<close> is the decoded body, or \<open>{}\<close> for a body that is not JSON. Of a body
  that is \<open>null\<close> the property \<open>error\<close> cannot be read: the expression throws the
  \<open>TypeError\<close> \<open>nullErrorData\<close> instead of giving a message.
\<close>

definition nullErrorData :: jserror where
  "nullErrorData = JsError TypeErr ''Cannot read properties of null (reading 'error')''"

definition errorData_message :: "body \<Rightarrow> string option" where
  "errorData_message b = (case b of ApiErrorBody c m \<Rightarrow> Some m | _ \<Rightarrow> None)"

definition statusMessage :: "nat \<Rightarrow> string" where
  "statusMessage st = ''API request failed: '' @ showNat st"

definition failureMessage :: "response \<Rightarrow> string" where
  "failureMessage r =
     (case errorData_message (body r) of
        Some m \<Rightarrow> if m \<noteq> [] then m else statusMessage (status r)
      | None \<Rightarrow> statusMessage (status r))"

text \<open>\<open>INITIAL_RETRY_DELAY_MS * (2 ** attempt)\<close>\<close>

definition backoff :: "nat \<Rightarrow> dnum" where
  "backoff attempt = times (Exact INITIAL_RETRY_DELAY_MS) (safe (2 ^ attempt))"

text \<open>The delay computed in the retryable branch, with the \<open>Retry-After\<close> rule for 429.\<close>

definition retryDelay :: "response \<Rightarrow> nat \<Rightarrow> dnum" where
  "retryDelay r attempt =
     (let delayMs = backoff attempt
      in if status r = 429 then
           (case retryAfter r of
              Some h \<Rightarrow>
                if h \<noteq> [] then mathMax delayMs (times (parseInt h) (Exact 1000)) else delayMs
            | None \<Rightarrow> delayMs)
         else delayMs)"

text \<open>One pass through the loop body either continues after a sleep or leaves the loop.\<close>

datatype step = Continue dnum jserror | Finish "body outcome"

definition timeoutError :: jserror where
  "timeoutError =
     JsError PlainError (''Request timed out after '' @ showNat REQUEST_TIMEOUT_MS @ ''ms'')"

text \<open>The \<open>catch\<close> block: a timeout, a network error (\<open>TypeError\<close>), or anything else.\<close>

definition catchBlock :: "jserror \<Rightarrow> nat \<Rightarrow> step" where
  "catchBlock error attempt =
     (if errName error = AbortErr then
        (if attempt < MAX_RETRIES then Continue (backoff attempt) timeoutError
         else Finish (Throws timeoutError))
      else if errName error = TypeErr \<and> attempt < MAX_RETRIES then
        Continue (backoff attempt) error
      else Finish (Throws error))"

text \<open>
  The \<open>try\<close> block. An error thrown inside it passes through the \<open>catch\<close> block: the
  one built from a failed response, and also the \<open>TypeError\<close> of reading the message of
  a \<open>null\<close> body, which is thrown in the retryable branch after the delay has been
  computed and before \<open>lastError\<close> is set, and in the other branch in place of the
  error of the response. The promise \<open>response.json()\<close> of a successful response is
  returned without being awaited, so its rejection (a body that is not JSON; the
  message is the engine's) leaves the loop uncaught.
\<close>

definition tryBlock :: "fetch_result \<Rightarrow> nat \<Rightarrow> step" where
  "tryBlock res attempt =
     (case res of
        Rejects e \<Rightarrow> catchBlock e attempt
      | Response r \<Rightarrow>
          if \<not> ok r then
            (if status r \<in> set RETRYABLE_STATUS_CODES \<and> attempt < MAX_RETRIES then
               (if body r = JsonNull then catchBlock nullErrorData attempt
                else Continue (retryDelay r attempt) (JsError PlainError (failureMessage r)))
             else
               (if body r = JsonNull then catchBlock nullErrorData attempt
                else catchBlock (JsError PlainError (failureMessage r)) attempt))
          else
            (case body r of
               NotJson \<Rightarrow> Finish (Throws (JsError SyntaxErr ''Unexpected end of JSON input''))
             | b \<Rightarrow> Finish (Returns b)))"

text \<open>
  \<open>for (let attempt = 0; attempt <= MAX_RETRIES; attempt++)\<close>, with \<open>lastError\<close>
  carried along; the branch after the loop is the \<open>throw\<close> that follows it.
\<close>

function request_loop ::
  "fetch_call \<Rightarrow> nat \<Rightarrow> jserror option \<Rightarrow> world \<Rightarrow> body outcome \<times> world" where
  "request_loop call attempt lastError w =
     (if attempt \<le> MAX_RETRIES then
        (case fetch call w of
           (res, w1) \<Rightarrow>
             (case tryBlock res attempt of
                Continue delayMs e \<Rightarrow>
                  request_loop call (attempt + 1) (Some e) (sleep delayMs w1)
              | Finish out \<Rightarrow> (out, w1)))
      else
        (Throws (case lastError of
                   Some e \<Rightarrow> e
                 | None \<Rightarrow> JsError PlainError ''Request failed after retries''), w))"
  by pat_completeness auto
termination
  by (relation "measure (\<lambda>(call, attempt, lastError, w). Suc MAX_RETRIES - attempt)") auto

declare request_loop.simps [simp del]

text \<open>
  \<open>params\<close> is the object literal handed to \<open>request\<close>, as its entries in order (its
  keys are distinct, and its values are strings and numbers, never \<open>undefined\<close> or
  \<open>null\<close>); \<open>searchParams.set\<close> is called once for each.
\<close>

definition entriesOf :: "(string \<times> qvalue) list option \<Rightarrow> (string \<times> qvalue) list" where
  "entriesOf params = (case params of None \<Rightarrow> [] | Some entries \<Rightarrow> entries)"

definition requestCall ::
  "client \<Rightarrow> string \<Rightarrow> (string \<times> qvalue) list option \<Rightarrow> fetch_call" where
  "requestCall c endpoint params =
     \<lparr>url_base = baseUrl c, url_input = ''/api/v1'' @ endpoint,
      url_sets = entriesOf params, header_api_key = apiKey c\<rparr>"

text \<open>
  \<open>request\<close>: the URL is built before the loop and outside its \<open>try\<close>, so the
  \<open>TypeError\<close> of a URL that the platform does not accept is thrown at once, with
  nothing fetched.
\<close>

definition request ::
  "client \<Rightarrow> string \<Rightarrow> (string \<times> qvalue) list option \<Rightarrow> world \<Rightarrow> body outcome \<times> world" where
  "request c endpoint params w =
     (if \<not> acceptsUrl w (''/api/v1'' @ endpoint) (baseUrl c) then
        (Throws (JsError TypeErr ''Invalid URL''), w)
      else request_loop (requestCall c endpoint params) 0 None w)"

section \<open>Query sets built with truthiness spreads\<close>

text \<open>
  \<open>...(v && { k: v })\<close> adds the entry \<open>k\<close> when \<open>v\<close> is truthy and nothing
  otherwise; \<open>v || d\<close> is \<open>v\<close> when truthy and \<open>d\<close> otherwise.
\<close>

definition spreadStr :: "string \<Rightarrow> string option \<Rightarrow> (string \<times> qvalue) list" where
  "spreadStr k v =
     (case v of Some s \<Rightarrow> if s \<noteq> [] then [(k, QStr s)] else [] | None \<Rightarrow> [])"

definition spreadNum :: "string \<Rightarrow> jsnum option \<Rightarrow> (string \<times> qvalue) list" where
  "spreadNum k v =
     (case v of Some n \<Rightarrow> if truthyNum n then [(k, QNum n)] else [] | None \<Rightarrow> [])"


definition orNum :: "jsnum option \<Rightarrow> jsnum \<Rightarrow> jsnum" where
  "orNum v d = (case v of Some n \<Rightarrow> if truthyNum n then n else d | None \<Rightarrow> d)"

definition throwError :: "string \<Rightarrow> 'a outcome" where
  "throwError msg = Throws (JsError PlainError msg)"

section \<open>Identity resolver (the api-client.ts bundled in tools/get-upload-status.ts)\<close>

text \<open>
  Every method takes the client and the world and gives back its outcome with both:
  the only field of the client that changes is \<open>resolvedProjectId\<close>.
  A decoded body without a \<open>project\<close> property makes \<open>response.project.id\<close> a
  \<open>TypeError\<close>, and so does the body \<open>null\<close>.
\<close>

definition resolveProjectId ::
  "client \<Rightarrow> world \<Rightarrow> string option \<Rightarrow> string outcome \<times> client \<times> world" where
  "resolveProjectId c w projectId =
     (if truthyStr projectId then
        (case projectId of Some p \<Rightarrow> (Returns p, c, w) | None \<Rightarrow> (Returns [], c, w))
      else if isUserToken c then
        (throwError ''projectId is required when using a user API Key'', c, w)
      else if truthyStr (resolvedProjectId c) then
        (case resolvedProjectId c of
           Some p \<Rightarrow> (Returns p, c, w)
         | None \<Rightarrow> (Returns [], c, w))
      else
        (case request c ''/project'' None w of
           (Throws e, w1) \<Rightarrow> (Throws e, c, w1)
         | (Returns (ProjectBody pid), w1) \<Rightarrow>
             (Returns pid, c\<lparr>resolvedProjectId := Some pid\<rparr>, w1)
         | (Returns JsonNull, w1) \<Rightarrow>
             (Throws (JsError TypeErr
                ''Cannot read properties of null (reading 'project')''), c, w1)
         | (Returns _, w1) \<Rightarrow>
             (Throws (JsError TypeErr
                ''Cannot read properties of undefined (reading 'id')''), c, w1)))"

record ListProjectsOptions =
  lp_organizationId :: "string option"
  lp_limit :: "jsnum option"
  lp_offset :: "jsnum option"

definition listProjects_params :: "ListProjectsOptions \<Rightarrow> (string \<times> qvalue) list" where
  "listProjects_params options =
     spreadStr ''organizationId'' (lp_organizationId options)
     @ spreadNum ''limit'' (lp_limit options)
     @ spreadNum ''offset'' (lp_offset options)"

text \<open>\<open>listProjects\<close> of api-client.ts.\<close>

definition listProjects ::
  "client \<Rightarrow> world \<Rightarrow> ListProjectsOptions \<Rightarrow> body outcome \<times> client \<times> world" where
  "listProjects c w options =
     (if \<not> isUserToken c then
        (throwError (''listProjects requires a user API Key (gaf_). ''
           @ ''Upload Tokens (gfr_) can only access a single project.''), c, w)
      else
        (case request c ''/user/projects'' (Some (listProjects_params options)) w of
           (out, w1) \<Rightarrow> (out, c, w1)))"

text \<open>
  \<open>listProjects\<close> of the bundled client; the dash of its message is written as the three
  bytes of its UTF-8 form.
\<close>

definition listProjects2 ::
  "client \<Rightarrow> world \<Rightarrow> ListProjectsOptions \<Rightarrow> body outcome \<times> client \<times> world" where
  "listProjects2 c w options =
     (if \<not> isUserToken c then
        (throwError (''list_projects is not available with project tokens (gfr_). ''
           @ ''Your token is already scoped to a single project ''
           @ [CHR 0xE2, CHR 0x80, CHR 0x94]
           @ '' call tools directly without passing projectId.''), c, w)
      else
        (case request c ''/user/projects'' (Some (listProjects_params options)) w of
           (out, w1) \<Rightarrow> (out, c, w1)))"

section \<open>Operations\<close>

record ProjectHealthOptions =
  ph_projectId :: "string option"
  ph_days :: "jsnum option"

definition getProjectHealth_params :: "ProjectHealthOptions \<Rightarrow> (string \<times> qvalue) list" where
  "getProjectHealth_params options = [(''days'', QNum (orNum (ph_days options) (Num 30)))]"

text \<open>\<open>getProjectHealth\<close> of the bundled client.\<close>

definition getProjectHealth2 ::
  "client \<Rightarrow> world \<Rightarrow> ProjectHealthOptions \<Rightarrow> body outcome \<times> client \<times> world" where
  "getProjectHealth2 c w options =
     (case resolveProjectId c w (ph_projectId options) of
        (Throws e, c1, w1) \<Rightarrow> (Throws e, c1, w1)
      | (Returns projectId, c1, w1) \<Rightarrow>
          (case request c1 (''/user/projects/'' @ projectId @ ''/health'')
                  (Some (getProjectHealth_params options)) w1 of
             (out, w2) \<Rightarrow> (out, c1, w2)))"

























record TestHistoryOptions =
  th_projectId :: "string option"
  th_testName :: "string option"
  th_filePath :: "string option"
  th_limit :: "jsnum option"

text \<open>
  The entries of the test-history query, from the trimmed \<open>testName\<close> and \<open>filePath\<close>.
\<close>

definition getTestHistory_params ::
  "string option \<Rightarrow> string option \<Rightarrow> jsnum option \<Rightarrow> (string \<times> qvalue) list" where
  "getTestHistory_params testName filePath limit =
     spreadStr ''testName'' testName @ spreadStr ''filePath'' filePath @ spreadNum ''limit'' limit"

text \<open>\<open>getTestHistory\<close> of api-client.ts.\<close>

definition getTestHistory ::
  "client \<Rightarrow> world \<Rightarrow> TestHistoryOptions \<Rightarrow> body outcome \<times> client \<times> world" where
  "getTestHistory c w options =
     (let testName = map_option trim (th_testName options);
          filePath = map_option trim (th_filePath options)
      in if \<not> truthyStr testName \<and> \<not> truthyStr filePath then
           (throwError ''Either testName or filePath is required (and must not be empty)'', c, w)
         else if isUserToken c then
           (case th_projectId options of
              Some pid \<Rightarrow>
                if pid \<noteq> [] then
                  (case request c (''/user/projects/'' @ pid @ ''/test-history'')
                          (Some (getTestHistory_params testName filePath (th_limit options))) w of
                     (out, w1) \<Rightarrow> (out, c, w1))
                else (throwError ''projectId is required when using a user API Key'', c, w)
            | None \<Rightarrow> (throwError ''projectId is required when using a user API Key'', c, w))
         else
           (case request c ''/project/test-history''
                   (Some (getTestHistory_params testName filePath (th_limit options))) w of
              (out, w1) \<Rightarrow> (out, c, w1)))"

text \<open>\<open>getTestHistory\<close> of the bundled client.\<close>

definition getTestHistory2 ::
  "client \<Rightarrow> world \<Rightarrow> TestHistoryOptions \<Rightarrow> body outcome \<times> client \<times> world" where
  "getTestHistory2 c w options =
     (let testName = map_option trim (th_testName options);
          filePath = map_option trim (th_filePath options)
      in if \<not> truthyStr testName \<and> \<not> truthyStr filePath then
           (throwError ''Either testName or filePath is required (and must not be empty)'', c, w)
         else
           (case resolveProjectId c w (th_projectId options) of
              (Throws e, c1, w1) \<Rightarrow> (Throws e, c1, w1)
            | (Returns projectId, c1, w1) \<Rightarrow>
                (case request c1 (''/user/projects/'' @ projectId @ ''/test-history'')
                        (Some (getTestHistory_params testName filePath (th_limit options))) w1 of
                   (out, w2) \<Rightarrow> (out, c1, w2))))"

record CompareTestMetricsOptions =
  cm_projectId :: "string option"
  cm_testName :: string
  cm_beforeCommit :: "string option"
  cm_afterCommit :: "string option"
  cm_beforeRunId :: "string option"
  cm_afterRunId :: "string option"

definition compareTestMetrics_params ::
  "CompareTestMetricsOptions \<Rightarrow> (string \<times> qvalue) list" where
  "compareTestMetrics_params options =
     [(''testName'', QStr (cm_testName options))]
     @ spreadStr ''beforeCommit'' (cm_beforeCommit options)
     @ spreadStr ''afterCommit'' (cm_afterCommit options)
     @ spreadStr ''beforeRunId'' (cm_beforeRunId options)
     @ spreadStr ''afterRunId'' (cm_afterRunId options)"

text \<open>\<open>compareTestMetrics\<close> of api-client.ts.\<close>

definition compareTestMetrics ::
  "client \<Rightarrow> world \<Rightarrow> CompareTestMetricsOptions \<Rightarrow> body outcome \<times> client \<times> world" where
  "compareTestMetrics c w options =
     (if \<not> isUserToken c then
        (throwError ''compareTestMetrics requires a user API Key (gaf_).'', c, w)
      else if \<not> truthyStr (cm_projectId options) then
        (throwError ''projectId is required'', c, w)
      else if cm_testName options = [] then
        (throwError ''testName is required'', c, w)
      else
        (case cm_projectId options of
           Some pid \<Rightarrow>
             (case request c (''/user/projects/'' @ pid @ ''/compare-test'')
                     (Some (compareTestMetrics_params options)) w of
                (out, w1) \<Rightarrow> (out, c, w1))
         | None \<Rightarrow> (throwError ''projectId is required'', c, w)))"

text \<open>\<open>compareTestMetrics\<close> of the bundled client.\<close>

definition compareTestMetrics2 ::
  "client \<Rightarrow> world \<Rightarrow> CompareTestMetricsOptions \<Rightarrow> body outcome \<times> client \<times> world" where
  "compareTestMetrics2 c w options =
     (if cm_testName options = [] then
        (throwError ''testName is required'', c, w)
      else
        (case resolveProjectId c w (cm_projectId options) of
           (Throws e, c1, w1) \<Rightarrow> (Throws e, c1, w1)
         | (Returns projectId, c1, w1) \<Rightarrow>
             (case request c1 (''/user/projects/'' @ projectId @ ''/compare-test'')
                     (Some (compareTestMetrics_params options)) w1 of
                (out, w2) \<Rightarrow> (out, c1, w2))))"

section \<open>Tools\<close>

text \<open>
  A tool is given the client object and calls one of its methods. The method is a
  parameter here, so that a tool runs with the method of either client.
\<close>

subsection \<open>compare_test_metrics (executeCompareTestMetrics)\<close>

text \<open>
  \<open>v!.trim().length === 0\<close> for a value read under a guard that makes it a string.
\<close>

definition trimsToEmpty :: "string option \<Rightarrow> bool" where
  "trimsToEmpty v = (case v of Some s \<Rightarrow> length (trim s) = 0 | None \<Rightarrow> False)"

definition executeCompareTestMetrics ::
  "(client \<Rightarrow> world \<Rightarrow> CompareTestMetricsOptions \<Rightarrow> body outcome \<times> client \<times> world)
   \<Rightarrow> client \<Rightarrow> world \<Rightarrow> CompareTestMetricsOptions \<Rightarrow> body outcome \<times> client \<times> world" where
  "executeCompareTestMetrics compareMethod c w input =
     (let hasCommits = (truthyStr (cm_beforeCommit input) \<and> truthyStr (cm_afterCommit input));
          hasRunIds = (truthyStr (cm_beforeRunId input) \<and> truthyStr (cm_afterRunId input))
      in if \<not> hasCommits \<and> \<not> hasRunIds then
           (throwError (''Must provide either (beforeCommit + afterCommit) ''
              @ ''or (beforeRunId + afterRunId)''), c, w)
         else if hasCommits
              \<and> (trimsToEmpty (cm_beforeCommit input) \<or> trimsToEmpty (cm_afterCommit input)) then
           (throwError ''beforeCommit and afterCommit must not be empty strings'', c, w)
         else if hasRunIds
              \<and> (trimsToEmpty (cm_beforeRunId input) \<or> trimsToEmpty (cm_afterRunId input)) then
           (throwError ''beforeRunId and afterRunId must not be empty strings'', c, w)
         else
           compareMethod c w
             \<lparr>cm_projectId = cm_projectId input,
              cm_testName = cm_testName input,
              cm_beforeCommit = cm_beforeCommit input,
              cm_afterCommit = cm_afterCommit input,
              cm_beforeRunId = cm_beforeRunId input,
              cm_afterRunId = cm_afterRunId input\<rparr>)"

text \<open>
  A comparison axis is complete when both of its sides are supplied and neither is
  empty after trimming.
\<close>

definition completePair :: "string option \<Rightarrow> string option \<Rightarrow> bool" where
  "completePair before after =
     (case (before, after) of
        (Some b, Some a) \<Rightarrow> trim b \<noteq> [] \<and> trim a \<noteq> []
      | _ \<Rightarrow> False)"

subsection \<open>get_test_history (executeGetTestHistory)\<close>

record GetTestHistoryOutputEntry =
  out_testRunId :: string
  out_createdAt :: string
  out_branch :: "string field"
  out_commitSha :: "string field"
  out_status :: TestStatus
  out_durationMs :: jsnum
  out_message :: "string field"

record GetTestHistoryOutputSummary =
  out_totalRuns :: jsnum
  out_passedRuns :: jsnum
  out_failedRuns :: jsnum
  out_passRate :: "jsnum field"

record GetTestHistoryOutput =
  out_history :: "GetTestHistoryOutputEntry list"
  out_summary :: GetTestHistoryOutputSummary

text \<open>\<open>v || undefined\<close> on an optional string.\<close>

definition orUndefined :: "string field \<Rightarrow> string field" where
  "orUndefined v = (case v of Present s \<Rightarrow> if s \<noteq> [] then Present s else Absent | _ \<Rightarrow> Absent)"

definition reshapeEntry :: "TestHistoryEntry \<Rightarrow> GetTestHistoryOutputEntry" where
  "reshapeEntry entry =
     \<lparr>out_testRunId = testRunId entry,
      out_createdAt = createdAt entry,
      out_branch = branch entry,
      out_commitSha = commitSha entry,
      out_status = test_status (test entry),
      out_durationMs = test_durationMs (test entry),
      out_message = orUndefined (test_message (test entry))\<rparr>"

definition reshapeResponse :: "TestHistoryResponse \<Rightarrow> GetTestHistoryOutput" where
  "reshapeResponse response =
     \<lparr>out_history = map reshapeEntry (history response),
      out_summary =
        \<lparr>out_totalRuns = totalRuns (summary response),
         out_passedRuns = passedRuns (summary response),
         out_failedRuns = failedRuns (summary response),
         out_passRate = passRate (summary response)\<rparr>\<rparr>"

text \<open>
  A decoded body without a \<open>history\<close> property makes \<open>response.history.map\<close> a
  \<open>TypeError\<close>, and so does the body \<open>null\<close>.
\<close>

definition executeGetTestHistory ::
  "(client \<Rightarrow> world \<Rightarrow> TestHistoryOptions \<Rightarrow> body outcome \<times> client \<times> world)
   \<Rightarrow> client \<Rightarrow> world \<Rightarrow> TestHistoryOptions
   \<Rightarrow> GetTestHistoryOutput outcome \<times> client \<times> world" where
  "executeGetTestHistory historyMethod c w input =
     (if \<not> truthyStr (th_testName input) \<and> \<not> truthyStr (th_filePath input) then
        (throwError ''Either testName or filePath is required'', c, w)
      else
        (case historyMethod c w
                \<lparr>th_projectId = th_projectId input,
                 th_testName = th_testName input,
                 th_filePath = th_filePath input,
                 th_limit = Some (orNum (th_limit input) (Num 20))\<rparr> of
           (Throws e, c1, w1) \<Rightarrow> (Throws e, c1, w1)
         | (Returns (TestHistoryBody response), c1, w1) \<Rightarrow>
             (Returns (reshapeResponse response), c1, w1)
         | (Returns JsonNull, c1, w1) \<Rightarrow>
             (Throws (JsError TypeErr
                ''Cannot read properties of null (reading 'history')''), c1, w1)
         | (Returns _, c1, w1) \<Rightarrow>
             (Throws (JsError TypeErr
                ''Cannot read properties of undefined (reading 'map')''), c1, w1)))"

section \<open>Observing the fetches\<close>


text \<open>
  The pathname of \<open>new URL(input, base)\<close>, for an input that starts with one slash and a
  base of scheme http or https that the platform accepts. The parser takes scheme, host
  and port from the base, cuts the input at its first \<open>?\<close> or \<open>#\<close>, splits what is
  before at every slash and backslash, drops a segment \<open>.\<close> and lets a segment \<open>..\<close>
  remove the segment before it (\<open>%2e\<close> counts as a dot). \<open>urlPathname\<close> gives the
  pathname for paths made of characters that the parser neither strips nor
  percent-encodes, and no answer for the others.
\<close>

definition plainPathChar :: "char \<Rightarrow> bool" where
  "plainPathChar c =
     (0x21 \<le> (of_char c :: nat) \<and> (of_char c :: nat) \<le> 0x7E
      \<and> c \<notin> set [CHR 0x22, CHR ''#'', CHR ''<'', CHR ''>'', CHR ''?'', CHR ''^'', CHR 0x60,
                   CHR ''{'', CHR ''}''])"

fun splitSegments :: "string \<Rightarrow> string \<Rightarrow> string list" where
  "splitSegments buffer [] = [buffer]"
| "splitSegments buffer (c # cs) =
     (if c = CHR ''/'' \<or> c = CHR 0x5C then buffer # splitSegments [] cs
      else splitSegments (buffer @ [c]) cs)"

definition isSingleDot :: "string \<Rightarrow> bool" where
  "isSingleDot s = (s \<in> set [''.'', ''%2e'', ''%2E''])"

definition isDoubleDot :: "string \<Rightarrow> bool" where
  "isDoubleDot s =
     (s \<in> set [''..'', ''.%2e'', ''.%2E'', ''%2e.'', ''%2E.'',
               ''%2e%2e'', ''%2e%2E'', ''%2E%2e'', ''%2E%2E''])"

fun resolveSegments :: "string list \<Rightarrow> string list \<Rightarrow> string list" where
  "resolveSegments path [] = path"
| "resolveSegments path [s] =
     (if isDoubleDot s then butlast path @ [[]]
      else if isSingleDot s then path @ [[]]
      else path @ [s])"
| "resolveSegments path (s # rest) =
     (if isDoubleDot s then resolveSegments (butlast path) rest
      else if isSingleDot s then resolveSegments path rest
      else resolveSegments (path @ [s]) rest)"

definition urlPathname :: "string \<Rightarrow> string option" where
  "urlPathname input =
     (let pathPart = takeWhile (\<lambda>c. c \<noteq> CHR ''?'' \<and> c \<noteq> CHR ''#'') input
      in if pathPart = [] then None
         else if hd pathPart \<noteq> CHR ''/'' then None
         else if tl pathPart \<noteq> []
                 \<and> (hd (tl pathPart) = CHR ''/'' \<or> hd (tl pathPart) = CHR 0x5C) then None
         else if \<not> list_all plainPathChar pathPart then None
         else Some (concat (map (\<lambda>s. CHR ''/'' # s)
                      (resolveSegments [] (splitSegments [] (tl pathPart))))))"

section \<open>Stubs and sample inputs\<close>

text \<open>
  A network that answers every call with the same response, on a platform that accepts
  every URL, and nothing done yet.
\<close>

definition alwaysResponds :: "response \<Rightarrow> world" where
  "alwaysResponds r =
     \<lparr>network = (\<lambda>k call. Response r), acceptsUrl = (\<lambda>input base. True),
      fetched = [], slept = []\<rparr>"


definition userClient :: client where
  "userClient = newClient \<lparr>cfg_apiKey = ''gaf_abc123'', cfg_baseUrl = ''https://app.gaffer.sh''\<rparr>"

definition projectClient :: client where
  "projectClient = newClient \<lparr>cfg_apiKey = ''gfr_xyz'', cfg_baseUrl = ''https://app.gaffer.sh''\<rparr>"



definition notFound404 :: response where
  "notFound404 = \<lparr>status = 404, retryAfter = None, body = ApiErrorBody ''NOT_FOUND'' ''not found''\<rparr>"

definition notFoundNull :: response where
  "notFoundNull = \<lparr>status = 404, retryAfter = None, body = JsonNull\<rparr>"

definition rateLimitedNull :: response where
  "rateLimitedNull = \<lparr>status = 429, retryAfter = Some ''10'', body = JsonNull\<rparr>"

definition projectFound :: response where
  "projectFound = \<lparr>status = 200, retryAfter = None, body = ProjectBody ''proj_1''\<rparr>"

definition sampleHistory :: TestHistoryResponse where
  "sampleHistory =
     \<lparr>history =
        [\<lparr>testRunId = ''run_1'', createdAt = ''2024-01-01T00:00:00Z'',
          branch = Absent, commitSha = Null,
          test = \<lparr>test_name = ''logs in'', test_status = failed, test_durationMs = Num 12,
                  test_filePath = Absent, test_message = Null\<rparr>\<rparr>],
      summary =
        \<lparr>totalRuns = Num 1, passedRuns = Num 0, failedRuns = Num 1, passRate = Null,
         searchedBy = ''testName'', searchValue = ''logs in''\<rparr>\<rparr>"

definition historyFound :: response where
  "historyFound = \<lparr>status = 200, retryAfter = None, body = TestHistoryBody sampleHistory\<rparr>"

definition noOptions :: TestHistoryOptions where
  "noOptions = \<lparr>th_projectId = None, th_testName = None, th_filePath = None, th_limit = None\<rparr>"

definition historyInput :: TestHistoryOptions where
  "historyInput =
     \<lparr>th_projectId = Some ''proj_1'', th_testName = Some ''logs in'',
      th_filePath = None, th_limit = None\<rparr>"

definition compareInput :: CompareTestMetricsOptions where
  "compareInput =
     \<lparr>cm_projectId = Some ''proj_1'', cm_testName = ''x'',
      cm_beforeCommit = None, cm_afterCommit = None,
      cm_beforeRunId = None, cm_afterRunId = None\<rparr>"

section \<open>Facts about the transport loop\<close>

lemma startsWith_iff: "startsWith s p \<longleftrightarrow> (\<exists>t. s = p @ t)"
proof
  assume "startsWith s p"
  then have "s = p @ drop (length p) s"
    by (metis append_take_drop_id startsWith_def)
  then show "\<exists>t. s = p @ t" ..
next
  assume "\<exists>t. s = p @ t"
  then show "startsWith s p" by (auto simp: startsWith_def)
qed

lemma request_loop_Continue:
  assumes "attempt \<le> MAX_RETRIES"
    and "tryBlock (network w (length (fetched w)) call) attempt = Continue d e"
  shows "request_loop call attempt lastError w =
         request_loop call (attempt + 1) (Some e)
           (w\<lparr>fetched := fetched w @ [call], slept := slept w @ [d]\<rparr>)"
  using assms by (subst request_loop.simps) (simp add: fetch_def sleep_def)

lemma request_loop_Finish:
  assumes "attempt \<le> MAX_RETRIES"
    and "tryBlock (network w (length (fetched w)) call) attempt = Finish out"
  shows "request_loop call attempt lastError w = (out, w\<lparr>fetched := fetched w @ [call]\<rparr>)"
  using assms by (subst request_loop.simps) (simp add: fetch_def)

lemma retryable_not_ok: "status r \<in> set RETRYABLE_STATUS_CODES \<Longrightarrow> \<not> ok r"
  by (auto simp: RETRYABLE_STATUS_CODES_def ok_def)

lemma backoff_exact:
  assumes "attempt \<le> MAX_RETRIES"
  shows "backoff attempt = Exact (1000 * 2 ^ attempt)"
proof -
  from assms have "attempt = 0 \<or> attempt = 1 \<or> attempt = 2 \<or> attempt = 3"
    by (auto simp: MAX_RETRIES_def)
  then show ?thesis
    by (elim disjE)
       (simp_all add: backoff_def safe_def MAX_SAFE_INTEGER_def INITIAL_RETRY_DELAY_MS_def)
qed

lemma tryBlock_retryable:
  assumes "status r \<in> set RETRYABLE_STATUS_CODES" and "body r \<noteq> JsonNull"
  shows "tryBlock (Response r) attempt =
     (if attempt < MAX_RETRIES
      then Continue (retryDelay r attempt) (JsError PlainError (failureMessage r))
      else Finish (Throws (JsError PlainError (failureMessage r))))"
  using assms retryable_not_ok [OF assms(1)]
  by (simp add: tryBlock_def catchBlock_def)

lemma tryBlock_null:
  assumes "\<not> ok r" and "body r = JsonNull"
  shows "tryBlock (Response r) attempt =
     (if attempt < MAX_RETRIES then Continue (backoff attempt) nullErrorData
      else Finish (Throws nullErrorData))"
  using assms by (simp add: tryBlock_def catchBlock_def nullErrorData_def)



lemma parseInt_empty: "parseInt [] = NotANumber"
  by (simp add: parseInt_def)

lemma parseInt_10: "parseInt ''10'' = Exact 10"
  by (simp add: parseInt_def isWhiteSpace_def isDigit_def digitVal_def safe_def
      MAX_SAFE_INTEGER_def)

lemma retryDelay_429:
  assumes "status r = 429" and "retryAfter r = Some h" and "parseInt h = Exact secs"
    and "\<bar>secs * 1000\<bar> \<le> MAX_SAFE_INTEGER" and "attempt \<le> MAX_RETRIES"
  shows "retryDelay r attempt = Exact (max (1000 * 2 ^ attempt) (secs * 1000))"
proof -
  from assms(3) have "h \<noteq> []" using parseInt_empty by auto
  with assms show ?thesis
    by (simp add: retryDelay_def backoff_exact safe_def)
qed

lemma statusMessage_not_fallback: "statusMessage st \<noteq> ''Request failed after retries''"
  by (simp add: statusMessage_def)



text \<open>
  Three passes that continue and a fourth that leaves the loop: four fetches of the same
  call and three sleeps.
\<close>

lemma request_loop_run:
  assumes t0: "tryBlock (network w (length (fetched w)) call) 0 = Continue d0 e0"
    and t1: "tryBlock (network w (length (fetched w) + 1) call) 1 = Continue d1 e1"
    and t2: "tryBlock (network w (length (fetched w) + 2) call) 2 = Continue d2 e2"
    and t3: "tryBlock (network w (length (fetched w) + 3) call) 3 = Finish out"
  shows "request_loop call 0 None w =
           (out, w\<lparr>fetched := fetched w @ replicate 4 call, slept := slept w @ [d0, d1, d2]\<rparr>)"
proof -
  let ?w1 = "w\<lparr>fetched := fetched w @ [call], slept := slept w @ [d0]\<rparr>"
  let ?w2 = "?w1\<lparr>fetched := fetched ?w1 @ [call], slept := slept ?w1 @ [d1]\<rparr>"
  let ?w3 = "?w2\<lparr>fetched := fetched ?w2 @ [call], slept := slept ?w2 @ [d2]\<rparr>"
  have u1: "tryBlock (network ?w1 (length (fetched ?w1)) call) 1 = Continue d1 e1"
    using t1 by simp
  have u2: "tryBlock (network ?w2 (length (fetched ?w2)) call) 2 = Continue d2 e2"
    using t2 by (simp add: numeral_2_eq_2)
  have u3: "tryBlock (network ?w3 (length (fetched ?w3)) call) 3 = Finish out"
    using t3 by (simp add: numeral_3_eq_3)
  have s0: "request_loop call 0 None w = request_loop call (0 + 1) (Some e0) ?w1"
    by (rule request_loop_Continue [OF _ t0]) (simp add: MAX_RETRIES_def)
  have s1: "request_loop call 1 (Some e0) ?w1 = request_loop call (1 + 1) (Some e1) ?w2"
    by (rule request_loop_Continue [OF _ u1]) (simp add: MAX_RETRIES_def)
  have s2: "request_loop call 2 (Some e1) ?w2 = request_loop call (2 + 1) (Some e2) ?w3"
    by (rule request_loop_Continue [OF _ u2]) (simp add: MAX_RETRIES_def)
  have s3: "request_loop call 3 (Some e2) ?w3 = (out, ?w3\<lparr>fetched := fetched ?w3 @ [call]\<rparr>)"
    by (rule request_loop_Finish [OF _ u3]) (simp add: MAX_RETRIES_def)
  show ?thesis
    using s0 s1 s2 s3 by (simp add: numeral_eq_Suc)
qed


text \<open>
  Four failed answers in a row with the body \<open>null\<close>, whatever their status: each is
  retried after the plain exponential delay, and the error thrown is the
  \<open>TypeError\<close> of reading the body.
\<close>

lemma request_null_run:
  assumes url: "acceptsUrl w (''/api/v1'' @ endpoint) (baseUrl c)"
    and resp: "\<forall>k<4. network w (length (fetched w) + k) (requestCall c endpoint params)
                         = Response (resp k)"
    and null: "\<forall>k<4. \<not> ok (resp k) \<and> body (resp k) = JsonNull"
  shows "request c endpoint params w =
           (Throws nullErrorData,
            w\<lparr>fetched := fetched w @ replicate 4 (requestCall c endpoint params),
              slept := slept w @ [Exact 1000, Exact 2000, Exact 4000]\<rparr>)"
proof -
  let ?call = "requestCall c endpoint params"
  have n: "network w (length (fetched w)) ?call = Response (resp 0)"
    "network w (length (fetched w) + 1) ?call = Response (resp 1)"
    "network w (length (fetched w) + 2) ?call = Response (resp 2)"
    "network w (length (fetched w) + 3) ?call = Response (resp 3)"
    using resp [rule_format, of 0] resp [rule_format, of 1] resp [rule_format, of 2]
      resp [rule_format, of 3] by simp_all
  have r: "\<not> ok (resp 0)" "body (resp 0) = JsonNull" "\<not> ok (resp 1)" "body (resp 1) = JsonNull"
    "\<not> ok (resp 2)" "body (resp 2) = JsonNull" "\<not> ok (resp 3)" "body (resp 3) = JsonNull"
    using null by simp_all
  have t0: "tryBlock (network w (length (fetched w)) ?call) 0
            = Continue (Exact 1000) nullErrorData"
    unfolding n tryBlock_null [OF r(1,2)] by (simp add: MAX_RETRIES_def backoff_exact)
  have t1: "tryBlock (network w (length (fetched w) + 1) ?call) 1
            = Continue (Exact 2000) nullErrorData"
    unfolding n tryBlock_null [OF r(3,4)] by (simp add: MAX_RETRIES_def backoff_exact)
  have t2: "tryBlock (network w (length (fetched w) + 2) ?call) 2
            = Continue (Exact 4000) nullErrorData"
    unfolding n tryBlock_null [OF r(5,6)] by (simp add: MAX_RETRIES_def backoff_exact)
  have t3: "tryBlock (network w (length (fetched w) + 3) ?call) 3
            = Finish (Throws nullErrorData)"
    unfolding n tryBlock_null [OF r(7,8)] by (simp add: MAX_RETRIES_def)
  show ?thesis
    unfolding request_def using url request_loop_run [OF t0 t1 t2 t3] by simp
qed

lemma alwaysResponds_answers:
  "network (alwaysResponds r) k call = Response r"
  "acceptsUrl (alwaysResponds r) input base"
  "fetched (alwaysResponds r) = []"
  "slept (alwaysResponds r) = []"
  by (simp_all add: alwaysResponds_def)





text \<open>
  What the loop does to the world: it fetches its own call at most once per attempt left,
  at least once when an attempt is left, appends to the log of sleeps, and leaves the
  network and the URL parser as they are.
\<close>

lemma request_loop_world:
  "\<exists>n ds. n \<le> Suc MAX_RETRIES - attempt \<and> (attempt \<le> MAX_RETRIES \<longrightarrow> 0 < n)
      \<and> snd (request_loop call attempt lastError w)
          = w\<lparr>fetched := fetched w @ replicate n call, slept := slept w @ ds\<rparr>"
proof (induction call attempt lastError w rule: request_loop.induct)
  case (1 call attempt lastError w)
  show ?case
  proof (cases "attempt \<le> MAX_RETRIES")
    case False
    then have "request_loop call attempt lastError w =
        (Throws (case lastError of Some e \<Rightarrow> e
                 | None \<Rightarrow> JsError PlainError ''Request failed after retries''), w)"
      by (subst request_loop.simps) simp
    then have "snd (request_loop call attempt lastError w)
               = w\<lparr>fetched := fetched w @ replicate 0 call, slept := slept w @ []\<rparr>"
      by simp
    with False show ?thesis by (intro exI [of _ 0] exI [of _ "[]"]) simp
  next
    case True
    let ?res = "network w (length (fetched w)) call"
    let ?w1 = "w\<lparr>fetched := fetched w @ [call]\<rparr>"
    have f: "fetch call w = (?res, ?w1)" by (simp add: fetch_def)
    show ?thesis
    proof (cases "tryBlock ?res attempt")
      case (Finish out)
      from request_loop_Finish [OF True Finish, of lastError]
      have "snd (request_loop call attempt lastError w)
            = w\<lparr>fetched := fetched w @ replicate 1 call, slept := slept w @ []\<rparr>"
        by simp
      with True show ?thesis by (intro exI [of _ 1] exI [of _ "[]"]) simp
    next
      case (Continue d e)
      let ?w2 = "w\<lparr>fetched := fetched w @ [call], slept := slept w @ [d]\<rparr>"
      have same: "sleep d ?w1 = ?w2" by (simp add: sleep_def)
      from "1.IH" [OF True f [symmetric] Continue]
      obtain n ds where n: "n \<le> Suc MAX_RETRIES - (attempt + 1)"
        and w: "snd (request_loop call (attempt + 1) (Some e) ?w2)
                = ?w2\<lparr>fetched := fetched ?w2 @ replicate n call, slept := slept ?w2 @ ds\<rparr>"
        unfolding same by blast
      from request_loop_Continue [OF True Continue, of lastError] w
      have "snd (request_loop call attempt lastError w)
            = w\<lparr>fetched := fetched w @ replicate (Suc n) call, slept := slept w @ (d # ds)\<rparr>"
        by (simp add: replicate_app_Cons_same)
      moreover have "Suc n \<le> Suc MAX_RETRIES - attempt" using n True by simp
      ultimately show ?thesis by (intro exI [of _ "Suc n"] exI [of _ "d # ds"]) simp
    qed
  qed
qed

lemma request_world:
  assumes "acceptsUrl w (''/api/v1'' @ endpoint) (baseUrl c)"
  shows "\<exists>n ds. 0 < n \<and> n \<le> Suc MAX_RETRIES
      \<and> snd (request c endpoint params w)
          = w\<lparr>fetched := fetched w @ replicate n (requestCall c endpoint params),
              slept := slept w @ ds\<rparr>"
proof -
  from request_loop_world [of 0 "requestCall c endpoint params" None w]
  obtain n ds where "n \<le> Suc MAX_RETRIES - 0" "0 \<le> MAX_RETRIES \<longrightarrow> 0 < n"
    "snd (request_loop (requestCall c endpoint params) 0 None w)
       = w\<lparr>fetched := fetched w @ replicate n (requestCall c endpoint params),
           slept := slept w @ ds\<rparr>"
    by blast
  then show ?thesis
    using assms unfolding request_def by (intro exI [of _ n] exI [of _ ds]) simp
qed

lemma request_rejected_url:
  assumes "\<not> acceptsUrl w (''/api/v1'' @ endpoint) (baseUrl c)"
  shows "request c endpoint params w = (Throws (JsError TypeErr ''Invalid URL''), w)"
  using assms by (simp add: request_def)


lemma request_keeps_parser:
  "acceptsUrl (snd (request c endpoint params w)) = acceptsUrl w"
proof (cases "acceptsUrl w (''/api/v1'' @ endpoint) (baseUrl c)")
  case True
  from request_world [OF True, of params] show ?thesis by auto
next
  case False
  then show ?thesis by (simp add: request_rejected_url)
qed

section \<open>Facts about the resolver\<close>

lemma resolveProjectId_explicit:
  "truthyStr projectId \<Longrightarrow> snd (resolveProjectId c w projectId) = (c, w)"
  by (cases projectId) (simp_all add: resolveProjectId_def)

lemma resolveProjectId_user:
  assumes "isUserToken c"
  shows "resolveProjectId c w None
           = (throwError ''projectId is required when using a user API Key'', c, w)"
    and "resolveProjectId c w (Some [])
           = (throwError ''projectId is required when using a user API Key'', c, w)"
    and "snd (resolveProjectId c w projectId) = (c, w)"
proof -
  show "resolveProjectId c w None
           = (throwError ''projectId is required when using a user API Key'', c, w)"
    using assms by (simp add: resolveProjectId_def)
  show "resolveProjectId c w (Some [])
           = (throwError ''projectId is required when using a user API Key'', c, w)"
    using assms by (simp add: resolveProjectId_def)
  show "snd (resolveProjectId c w projectId) = (c, w)"
  proof (cases "truthyStr projectId")
    case True
    then show ?thesis by (rule resolveProjectId_explicit)
  next
    case False
    then show ?thesis using assms by (simp add: resolveProjectId_def)
  qed
qed



lemma request_ok:
  assumes "acceptsUrl w (''/api/v1'' @ endpoint) (baseUrl c)"
    and "network w (length (fetched w)) (requestCall c endpoint params) = Response r"
    and "ok r" and "body r \<noteq> NotJson"
  shows "request c endpoint params w =
           (Returns (body r), w\<lparr>fetched := fetched w @ [requestCall c endpoint params]\<rparr>)"
proof -
  have "tryBlock (network w (length (fetched w)) (requestCall c endpoint params)) 0
        = Finish (Returns (body r))"
    unfolding assms(2) using assms(3,4) by (cases "body r") (simp_all add: tryBlock_def)
  then have "request_loop (requestCall c endpoint params) 0 None w =
      (Returns (body r), w\<lparr>fetched := fetched w @ [requestCall c endpoint params]\<rparr>)"
    by (intro request_loop_Finish) simp_all
  then show ?thesis
    using assms(1) by (simp add: request_def)
qed

lemma projectClient_scoped: "\<not> isUserToken projectClient"
  by (simp add: projectClient_def newClient_def isUserToken_def detectTokenType_def startsWith_def)

lemma userClient_primary: "isUserToken userClient"
  by (simp add: userClient_def newClient_def isUserToken_def detectTokenType_def startsWith_def)



lemma fails_throwError: "fails (throwError msg)"
  by (simp add: throwError_def)

section \<open>Facts about the comparison tool\<close>

lemma trim_Nil: "trim [] = []"
  by (simp add: trim_def)

lemma completePair_iff:
  "completePair b a \<longleftrightarrow>
     truthyStr b \<and> truthyStr a \<and> \<not> trimsToEmpty b \<and> \<not> trimsToEmpty a"
  by (cases b; cases a) (auto simp: completePair_def trimsToEmpty_def trim_Nil)

lemma compare_options_copy:
  "\<lparr>cm_projectId = cm_projectId input, cm_testName = cm_testName input,
    cm_beforeCommit = cm_beforeCommit input, cm_afterCommit = cm_afterCommit input,
    cm_beforeRunId = cm_beforeRunId input, cm_afterRunId = cm_afterRunId input\<rparr>
   = (input :: CompareTestMetricsOptions)"
  by (cases input) simp

lemma executeCompare_rejects:
  assumes "\<not> completePair (cm_beforeCommit input) (cm_afterCommit input)"
    and "\<not> completePair (cm_beforeRunId input) (cm_afterRunId input)"
  shows "fails (fst (executeCompareTestMetrics compareMethod c w input))
         \<and> snd (executeCompareTestMetrics compareMethod c w input) = (c, w)"
  using assms unfolding completePair_iff executeCompareTestMetrics_def Let_def
  by (auto simp: fails_throwError)

lemma executeCompare_accepts:
  assumes "completePair (cm_beforeCommit input) (cm_afterCommit input)"
    and "completePair (cm_beforeRunId input) (cm_afterRunId input)"
  shows "executeCompareTestMetrics compareMethod c w input = compareMethod c w input"
  using assms unfolding completePair_iff executeCompareTestMetrics_def Let_def
  by (auto simp: compare_options_copy)

lemma trim_letter: "trim ''a'' = ''a''" "trim ''b'' = ''b''" "trim ''r1'' = ''r1''" "trim ''r2'' = ''r2''"
  by (simp_all add: trim_def isWhiteSpace_def)

section \<open>Facts about the test-history lookup\<close>

lemma getTestHistory_blank:
  assumes "\<not> truthyStr (map_option trim (th_testName options))"
    and "\<not> truthyStr (map_option trim (th_filePath options))"
  shows "getTestHistory c w options =
           (throwError ''Either testName or filePath is required (and must not be empty)'', c, w)"
    and "getTestHistory2 c w options =
           (throwError ''Either testName or filePath is required (and must not be empty)'', c, w)"
  using assms by (simp_all add: getTestHistory_def getTestHistory2_def)

lemma executeGetTestHistory_blank:
  assumes blank: "\<not> truthyStr (map_option trim (th_testName options))"
      "\<not> truthyStr (map_option trim (th_filePath options))"
    and which: "historyMethod = getTestHistory \<or> historyMethod = getTestHistory2"
  shows "fails (fst (executeGetTestHistory historyMethod c w options))
         \<and> snd (executeGetTestHistory historyMethod c w options) = (c, w)"
proof (cases "\<not> truthyStr (th_testName options) \<and> \<not> truthyStr (th_filePath options)")
  case True
  then show ?thesis by (simp add: executeGetTestHistory_def fails_throwError)
next
  case False
  let ?passed = "\<lparr>th_projectId = th_projectId options, th_testName = th_testName options,
                   th_filePath = th_filePath options,
                   th_limit = Some (orNum (th_limit options) (Num 20))\<rparr>"
  have "historyMethod c w ?passed =
          (throwError ''Either testName or filePath is required (and must not be empty)'', c, w)"
    using which getTestHistory_blank [of ?passed c w] blank by auto
  with False show ?thesis
    by (simp add: executeGetTestHistory_def throwError_def)
qed

lemma trim_spaces: "trim ''   '' = []"
  by (simp add: trim_def isWhiteSpace_def)

lemma noOptions_blank:
  "\<not> truthyStr (map_option trim (th_testName (noOptions\<lparr>th_testName := Some ''   ''\<rparr>)))"
  "\<not> truthyStr (map_option trim (th_filePath (noOptions\<lparr>th_testName := Some ''   ''\<rparr>)))"
  "(noOptions\<lparr>th_testName := Some ''   ''\<rparr>)\<lparr>th_testName := None, th_filePath := None\<rparr>
     = noOptions"
  by (simp_all add: noOptions_def trim_spaces)

section \<open>Facts about the reshaping of the test history\<close>

lemma orUndefined_cases:
  "orUndefined Absent = Absent"
  "orUndefined Null = Absent"
  "orUndefined (Present []) = Absent"
  "s \<noteq> [] \<Longrightarrow> orUndefined (Present s) = Present s"
  by (simp_all add: orUndefined_def)

lemma executeGetTestHistory_returns:
  assumes "truthyStr (th_testName input) \<or> truthyStr (th_filePath input)"
    and "historyMethod c w
           \<lparr>th_projectId = th_projectId input, th_testName = th_testName input,
            th_filePath = th_filePath input,
            th_limit = Some (orNum (th_limit input) (Num 20))\<rparr>
         = (Returns (TestHistoryBody response), c1, w1)"
  shows "executeGetTestHistory historyMethod c w input
         = (Returns (reshapeResponse response), c1, w1)"
  using assms by (auto simp: executeGetTestHistory_def)

lemma trim_logs_in: "trim ''logs in'' = ''logs in''"
  by (simp add: trim_def isWhiteSpace_def)

lemma history_fetch:
  "getTestHistory userClient (alwaysResponds historyFound)
     \<lparr>th_projectId = th_projectId historyInput, th_testName = th_testName historyInput,
      th_filePath = th_filePath historyInput,
      th_limit = Some (orNum (th_limit historyInput) (Num 20))\<rparr>
   = (Returns (TestHistoryBody sampleHistory), userClient,
      (alwaysResponds historyFound)
        \<lparr>fetched := [requestCall userClient ''/user/projects/proj_1/test-history''
           (Some [(''testName'', QStr ''logs in''), (''limit'', QNum (Num 20))])]\<rparr>)"
proof -
  let ?params = "Some [(''testName'', QStr ''logs in''), (''limit'', QNum (Num 20))]"
  have "request userClient ''/user/projects/proj_1/test-history'' ?params
          (alwaysResponds historyFound) =
      (Returns (body historyFound),
       (alwaysResponds historyFound)
         \<lparr>fetched := fetched (alwaysResponds historyFound)
            @ [requestCall userClient ''/user/projects/proj_1/test-history'' ?params]\<rparr>)"
    by (rule request_ok [where r = historyFound])
       (simp_all add: alwaysResponds_answers ok_def historyFound_def)
  then show ?thesis
    by (simp add: getTestHistory_def historyInput_def trim_logs_in userClient_primary
        getTestHistory_params_def spreadStr_def spreadNum_def orNum_def
        alwaysResponds_answers historyFound_def)
qed

lemma historyInput_named: "truthyStr (th_testName historyInput) \<or> truthyStr (th_filePath historyInput)"
  by (simp add: historyInput_def)

section \<open>Facts about single answers\<close>


text \<open>
  A 429 with a \<open>Retry-After\<close> header that reads as an integer, and a body other than
  \<open>null\<close>, at an attempt that has a retry left: the next sleep of the loop is the
  larger of the exponential delay and the seconds of the header.
\<close>

lemma retry_after_sleep:
  assumes "n < MAX_RETRIES"
    and "network w (length (fetched w)) call = Response r"
    and "status r = 429"
    and "retryAfter r = Some h"
    and "parseInt h = Exact secs"
    and "\<bar>secs * 1000\<bar> \<le> MAX_SAFE_INTEGER"
    and "body r \<noteq> JsonNull"
  shows "\<exists>rest. slept (snd (request_loop call n lastError w))
           = slept w @ [Exact (max (1000 * 2 ^ n) (secs * 1000))] @ rest"
proof -
  let ?d = "Exact (max (1000 * 2 ^ n) (secs * 1000))"
  let ?w1 = "w\<lparr>fetched := fetched w @ [call], slept := slept w @ [?d]\<rparr>"
  let ?e = "JsError PlainError (failureMessage r)"
  have le: "n \<le> MAX_RETRIES" using assms(1) by simp
  have "status r \<in> set RETRYABLE_STATUS_CODES"
    using assms(3) by (simp add: RETRYABLE_STATUS_CODES_def)
  then have "tryBlock (network w (length (fetched w)) call) n = Continue ?d ?e"
    using assms le by (simp add: tryBlock_retryable retryDelay_429)
  from request_loop_Continue [OF le this, of lastError]
  have step: "request_loop call n lastError w = request_loop call (n + 1) (Some ?e) ?w1" .
  from request_loop_world [of "n + 1" call "Some ?e" ?w1]
  obtain k ds where "snd (request_loop call (n + 1) (Some ?e) ?w1)
      = ?w1\<lparr>fetched := fetched ?w1 @ replicate k call, slept := slept ?w1 @ ds\<rparr>"
    by blast
  with step have "slept (snd (request_loop call n lastError w)) = slept w @ [?d] @ ds"
    by simp
  then show ?thesis ..
qed

section \<open>Facts about the first resolution\<close>



section \<open>Facts about the capability checks\<close>

text \<open>
  The checks themselves: with a user key \<open>resolveProjectId\<close> throws before its request
  and never changes client or world, and with a project token \<open>listProjects\<close> (of
  either client) throws before its request.
\<close>

lemma capability_checks:
  assumes "isUserToken c" and "\<not> isUserToken c'"
  shows "resolveProjectId c w None
           = (throwError ''projectId is required when using a user API Key'', c, w)"
    and "snd (resolveProjectId c w projectId) = (c, w)"
    and "fails (fst (listProjects c' w options)) \<and> snd (listProjects c' w options) = (c', w)"
    and "fails (fst (listProjects2 c' w options)) \<and> snd (listProjects2 c' w options) = (c', w)"
proof -
  show "resolveProjectId c w None
           = (throwError ''projectId is required when using a user API Key'', c, w)"
    using assms(1) by (rule resolveProjectId_user)
  show "snd (resolveProjectId c w projectId) = (c, w)"
    using assms(1) by (rule resolveProjectId_user)
  show "fails (fst (listProjects c' w options)) \<and> snd (listProjects c' w options) = (c', w)"
    using assms(2) by (simp add: listProjects_def fails_throwError)
  show "fails (fst (listProjects2 c' w options)) \<and> snd (listProjects2 c' w options) = (c', w)"
    using assms(2) by (simp add: listProjects2_def fails_throwError)
qed

lemma resolveProjectId_given:
  "pid \<noteq> [] \<Longrightarrow> resolveProjectId c w (Some pid) = (Returns pid, c, w)"
  by (simp add: resolveProjectId_def)

lemma getProjectHealth2_given:
  assumes "ph_projectId options = Some pid" and "pid \<noteq> []"
  shows "getProjectHealth2 c w options =
     (case request c (''/user/projects/'' @ pid @ ''/health'')
             (Some (getProjectHealth_params options)) w of
        (out, w2) \<Rightarrow> (out, c, w2))"
  unfolding getProjectHealth2_def assms(1) resolveProjectId_given [OF assms(2)] by simp

lemma health_of_given_project:
  assumes "pid \<noteq> []"
  shows "getProjectHealth2 c (alwaysResponds projectFound)
           \<lparr>ph_projectId = Some pid, ph_days = None\<rparr>
         = (Returns (ProjectBody ''proj_1''), c,
            (alwaysResponds projectFound)
              \<lparr>fetched := [\<lparr>url_base = baseUrl c,
                             url_input = ''/api/v1/user/projects/'' @ pid @ ''/health'',
                             url_sets = [(''days'', QNum (Num 30))],
                             header_api_key = apiKey c\<rparr>]\<rparr>)"
proof -
  let ?endpoint = "''/user/projects/'' @ pid @ ''/health''"
  let ?params = "Some (getProjectHealth_params \<lparr>ph_projectId = Some pid, ph_days = None\<rparr>)"
  have "request c ?endpoint ?params (alwaysResponds projectFound) =
      (Returns (body projectFound),
       (alwaysResponds projectFound)
         \<lparr>fetched := fetched (alwaysResponds projectFound)
            @ [requestCall c ?endpoint ?params]\<rparr>)"
    by (rule request_ok [where r = projectFound])
       (simp_all add: alwaysResponds_answers ok_def projectFound_def)
  then show ?thesis
    using getProjectHealth2_given [of "\<lparr>ph_projectId = Some pid, ph_days = None\<rparr>" pid c
        "alwaysResponds projectFound"] assms
    by (simp add: alwaysResponds_answers projectFound_def requestCall_def entriesOf_def
        getProjectHealth_params_def orNum_def)
qed

lemma pathname_up_two:
  "urlPathname ''/api/v1/user/projects/../../project#/health'' = Some ''/api/v1/project''"
  by (simp add: urlPathname_def plainPathChar_def isSingleDot_def isDoubleDot_def)

lemma pathname_up_one:
  "urlPathname ''/api/v1/user/projects/../projects#/health'' = Some ''/api/v1/user/projects''"
  by (simp add: urlPathname_def plainPathChar_def isSingleDot_def isDoubleDot_def)

lemma pathname_plain:
  "urlPathname ''/api/v1/project'' = Some ''/api/v1/project''"
  "urlPathname ''/api/v1/user/projects'' = Some ''/api/v1/user/projects''"
  "urlPathname ''/api/v1/user/projects/proj_1/health''
     = Some ''/api/v1/user/projects/proj_1/health''"
  by (simp_all add: urlPathname_def plainPathChar_def isSingleDot_def isDoubleDot_def)

section \<open>Facts about query sets\<close>



































section \<open>Credential classification\<close>

text \<open>
  C6. \<open>detectTokenType\<close> answers \<open>UserToken\<close> (the primary kind) exactly for the strings
  that start with \<open>gaf_\<close> and \<open>ProjectToken\<close> (the scoped kind) for every other
  string; the three sample credentials of the specification are classified as it says.
  The function reads its argument only.
\<close>

theorem detectTokenType_prefix:
  "(detectTokenType s = UserToken \<longleftrightarrow> (\<exists>t. s = ''gaf_'' @ t))
   \<and> (detectTokenType s = ProjectToken \<longleftrightarrow> \<not> (\<exists>t. s = ''gaf_'' @ t))
   \<and> detectTokenType ''gaf_abc123'' = UserToken
   \<and> detectTokenType ''gfr_xyz'' = ProjectToken
   \<and> detectTokenType [] = ProjectToken"
proof -
  have a: "detectTokenType s = UserToken \<longleftrightarrow> (\<exists>t. s = ''gaf_'' @ t)"
    unfolding detectTokenType_def startsWith_iff by simp
  have b: "detectTokenType s = ProjectToken \<longleftrightarrow> \<not> (\<exists>t. s = ''gaf_'' @ t)"
    unfolding detectTokenType_def startsWith_iff by simp
  have c: "detectTokenType ''gaf_abc123'' = UserToken"
    "detectTokenType ''gfr_xyz'' = ProjectToken" "detectTokenType [] = ProjectToken"
    by (simp_all add: detectTokenType_def startsWith_def)
  from a b c show ?thesis by blast
qed

theorem detectTokenType_prefix_witness:
  "detectTokenType ''gaf_live_key'' = UserToken \<and> detectTokenType ''gaff_key'' = ProjectToken"
  using detectTokenType_prefix [of "''gaf_live_key''"] detectTokenType_prefix [of "''gaff_key''"]
  by simp

section \<open>Retry exhaustion\<close>




section \<open>Non-retryable short circuit\<close>

text \<open>
  C2. The claim asks for one attempt and an immediate failure for every answer with a
  status that is not retryable. A 404 whose JSON body is \<open>null\<close> has such a status, and
  \<open>request\<close> fetches it four times, sleeps 1000, 2000 and 4000 ms in between, and
  throws the \<open>TypeError\<close> of reading the body, not an error made from the answer.
\<close>

theorem null_body_is_retried:
  "status notFoundNull \<notin> set RETRYABLE_STATUS_CODES
   \<and> request userClient ''/user/projects'' None (alwaysResponds notFoundNull) =
       (Throws (JsError TypeErr ''Cannot read properties of null (reading 'error')''),
        (alwaysResponds notFoundNull)
          \<lparr>fetched := replicate 4 (requestCall userClient ''/user/projects'' None),
           slept := [Exact 1000, Exact 2000, Exact 4000]\<rparr>)"
proof -
  have u: "acceptsUrl (alwaysResponds notFoundNull) (''/api/v1'' @ ''/user/projects'')
             (baseUrl userClient)"
    by (simp add: alwaysResponds_answers)
  have a: "\<forall>k<4. network (alwaysResponds notFoundNull)
              (length (fetched (alwaysResponds notFoundNull)) + k)
              (requestCall userClient ''/user/projects'' None) = Response ((\<lambda>k. notFoundNull) k)"
    by (simp add: alwaysResponds_answers)
  have b: "\<forall>k<(4::nat). \<not> ok ((\<lambda>k. notFoundNull) k) \<and> body ((\<lambda>k. notFoundNull) k) = JsonNull"
    by (simp add: notFoundNull_def ok_def)
  have c: "status notFoundNull \<notin> set RETRYABLE_STATUS_CODES"
    by (simp add: notFoundNull_def RETRYABLE_STATUS_CODES_def)
  from request_null_run [OF u a b] c show ?thesis
    by (simp add: alwaysResponds_answers nullErrorData_def)
qed

section \<open>Retry-After on 429\<close>

text \<open>
  C3. The claim asks, after every 429 with a \<open>Retry-After\<close> header of whole seconds,
  for a delay of the larger of the exponential value and the seconds of the header. A
  429 with \<open>Retry-After: 10\<close> whose JSON body is \<open>null\<close> is waited on for 1000, 2000
  and 4000 ms: the header is read and then lost with the \<open>TypeError\<close> of reading the
  body, which is retried after the exponential delay alone.
\<close>

theorem retry_after_lost_on_null_body:
  "status rateLimitedNull = 429
   \<and> retryAfter rateLimitedNull = Some ''10''
   \<and> parseInt ''10'' = Exact 10
   \<and> slept (snd (request projectClient ''/project'' None (alwaysResponds rateLimitedNull)))
       = [Exact 1000, Exact 2000, Exact 4000]"
proof -
  have u: "acceptsUrl (alwaysResponds rateLimitedNull) (''/api/v1'' @ ''/project'')
             (baseUrl projectClient)"
    by (simp add: alwaysResponds_answers)
  have a: "\<forall>k<4. network (alwaysResponds rateLimitedNull)
              (length (fetched (alwaysResponds rateLimitedNull)) + k)
              (requestCall projectClient ''/project'' None)
            = Response ((\<lambda>k. rateLimitedNull) k)"
    by (simp add: alwaysResponds_answers)
  have b: "\<forall>k<(4::nat). \<not> ok ((\<lambda>k. rateLimitedNull) k)
              \<and> body ((\<lambda>k. rateLimitedNull) k) = JsonNull"
    by (simp add: rateLimitedNull_def ok_def)
  have c: "status rateLimitedNull = 429" "retryAfter rateLimitedNull = Some ''10''"
    by (simp_all add: rateLimitedNull_def)
  from request_null_run [OF u a b] c parseInt_10 show ?thesis
    by (simp add: alwaysResponds_answers)
qed

section \<open>Project resolution caching\<close>




section \<open>Capability gates\<close>

text \<open>
  C5. The claim asks that no network call ever goes to the identity-resolution endpoint
  with a primary credential, and none to the listing endpoint with a scoped one. The
  kind of the credential is tested where the claim says, but a project id supplied by
  the caller is put into the path of the URL as it is, and the URL parser resolves the
  dot segments of a path and cuts it at \<open>#\<close>. With the project id \<open>../../project#\<close>
  the project-health operation of a primary credential fetches the address of pathname
  \<open>/api/v1/project\<close>, the identity-resolution endpoint; with \<open>../projects#\<close> that of
  a scoped credential fetches \<open>/api/v1/user/projects\<close>, the listing endpoint.
\<close>

theorem capability_gate_bypass:
  "isUserToken userClient
   \<and> map (\<lambda>k. (urlPathname (url_input k), header_api_key k))
        (fetched (snd (snd (getProjectHealth2 userClient (alwaysResponds projectFound)
           \<lparr>ph_projectId = Some ''../../project#'', ph_days = None\<rparr>))))
     = [(Some ''/api/v1/project'', ''gaf_abc123'')]
   \<and> urlPathname (url_input (requestCall projectClient ''/project'' None))
     = Some ''/api/v1/project''
   \<and> isUserToken projectClient = False
   \<and> map (\<lambda>k. (urlPathname (url_input k), header_api_key k))
        (fetched (snd (snd (getProjectHealth2 projectClient (alwaysResponds projectFound)
           \<lparr>ph_projectId = Some ''../projects#'', ph_days = None\<rparr>))))
     = [(Some ''/api/v1/user/projects'', ''gfr_xyz'')]
   \<and> urlPathname (url_input (requestCall userClient ''/user/projects'' None))
     = Some ''/api/v1/user/projects''"
proof -
  have a: "''../../project#'' \<noteq> []" and b: "''../projects#'' \<noteq> []" by simp_all
  have k: "apiKey userClient = ''gaf_abc123''" "apiKey projectClient = ''gfr_xyz''"
    by (simp_all add: userClient_def projectClient_def newClient_def)
  show ?thesis
    using projectClient_scoped
    by (simp add: health_of_given_project [OF a] health_of_given_project [OF b]
        pathname_up_two pathname_up_one pathname_plain userClient_primary
        requestCall_def k)
qed

section \<open>Comparison validation\<close>

text \<open>
  C7. \<open>executeCompareTestMetrics\<close> needs a complete comparison axis. An input with
  neither a complete commit pair nor a complete run-id pair (one side alone does not
  make a pair) fails with client and world untouched, so before any network call and
  without reaching the client method. An input with both pairs complete is handed to the
  client method unchanged, and so is an input with one pair complete whose other pair
  is not supplied on both sides.
\<close>

theorem compare_validation:
  "(\<not> completePair (cm_beforeCommit input) (cm_afterCommit input)
      \<and> \<not> completePair (cm_beforeRunId input) (cm_afterRunId input)
     \<longrightarrow> fails (fst (executeCompareTestMetrics compareMethod c w input))
         \<and> snd (executeCompareTestMetrics compareMethod c w input) = (c, w))
   \<and> (completePair (cm_beforeCommit input) (cm_afterCommit input)
      \<and> completePair (cm_beforeRunId input) (cm_afterRunId input)
     \<longrightarrow> executeCompareTestMetrics compareMethod c w input = compareMethod c w input)
   \<and> (completePair (cm_beforeCommit input) (cm_afterCommit input)
      \<and> \<not> (truthyStr (cm_beforeRunId input) \<and> truthyStr (cm_afterRunId input))
     \<longrightarrow> executeCompareTestMetrics compareMethod c w input = compareMethod c w input)
   \<and> (completePair (cm_beforeRunId input) (cm_afterRunId input)
      \<and> \<not> (truthyStr (cm_beforeCommit input) \<and> truthyStr (cm_afterCommit input))
     \<longrightarrow> executeCompareTestMetrics compareMethod c w input = compareMethod c w input)"
proof (intro conjI impI)
  assume "\<not> completePair (cm_beforeCommit input) (cm_afterCommit input)
      \<and> \<not> completePair (cm_beforeRunId input) (cm_afterRunId input)"
  then show "fails (fst (executeCompareTestMetrics compareMethod c w input))"
    and "snd (executeCompareTestMetrics compareMethod c w input) = (c, w)"
    using executeCompare_rejects [of input compareMethod c w] by simp_all
next
  assume "completePair (cm_beforeCommit input) (cm_afterCommit input)
      \<and> completePair (cm_beforeRunId input) (cm_afterRunId input)"
  then show "executeCompareTestMetrics compareMethod c w input = compareMethod c w input"
    by (simp add: executeCompare_accepts)
next
  assume "completePair (cm_beforeCommit input) (cm_afterCommit input)
      \<and> \<not> (truthyStr (cm_beforeRunId input) \<and> truthyStr (cm_afterRunId input))"
  then show "executeCompareTestMetrics compareMethod c w input = compareMethod c w input"
    unfolding completePair_iff executeCompareTestMetrics_def Let_def
    by (auto simp: compare_options_copy)
next
  assume "completePair (cm_beforeRunId input) (cm_afterRunId input)
      \<and> \<not> (truthyStr (cm_beforeCommit input) \<and> truthyStr (cm_afterCommit input))"
  then show "executeCompareTestMetrics compareMethod c w input = compareMethod c w input"
    unfolding completePair_iff executeCompareTestMetrics_def Let_def
    by (auto simp: compare_options_copy)
qed

theorem compare_validation_witness:
  "fails (fst (executeCompareTestMetrics compareTestMetrics userClient
           (alwaysResponds notFound404) compareInput))
   \<and> snd (executeCompareTestMetrics compareTestMetrics userClient
           (alwaysResponds notFound404) compareInput)
     = (userClient, alwaysResponds notFound404)
   \<and> fails (fst (executeCompareTestMetrics compareTestMetrics userClient
           (alwaysResponds notFound404) (compareInput\<lparr>cm_beforeCommit := Some ''a''\<rparr>)))
   \<and> executeCompareTestMetrics compareTestMetrics userClient (alwaysResponds notFound404)
        (compareInput\<lparr>cm_beforeCommit := Some ''a'', cm_afterCommit := Some ''b''\<rparr>)
     = compareTestMetrics userClient (alwaysResponds notFound404)
        (compareInput\<lparr>cm_beforeCommit := Some ''a'', cm_afterCommit := Some ''b''\<rparr>)
   \<and> executeCompareTestMetrics compareTestMetrics userClient (alwaysResponds notFound404)
        (compareInput\<lparr>cm_beforeCommit := Some ''a'', cm_afterCommit := Some ''b'',
                      cm_beforeRunId := Some ''r1'', cm_afterRunId := Some ''r2''\<rparr>)
     = compareTestMetrics userClient (alwaysResponds notFound404)
        (compareInput\<lparr>cm_beforeCommit := Some ''a'', cm_afterCommit := Some ''b'',
                      cm_beforeRunId := Some ''r1'', cm_afterRunId := Some ''r2''\<rparr>)"
  using
    compare_validation [of compareInput compareTestMetrics userClient
      "alwaysResponds notFound404"]
    compare_validation [of "compareInput\<lparr>cm_beforeCommit := Some ''a''\<rparr>"
      compareTestMetrics userClient "alwaysResponds notFound404"]
    compare_validation [of
      "compareInput\<lparr>cm_beforeCommit := Some ''a'', cm_afterCommit := Some ''b''\<rparr>"
      compareTestMetrics userClient "alwaysResponds notFound404"]
    compare_validation [of
      "compareInput\<lparr>cm_beforeCommit := Some ''a'', cm_afterCommit := Some ''b'',
                      cm_beforeRunId := Some ''r1'', cm_afterRunId := Some ''r2''\<rparr>"
      compareTestMetrics userClient "alwaysResponds notFound404"]
  by (simp add: completePair_def compareInput_def trim_letter)

section \<open>Test-history search key\<close>

text \<open>
  C9. When \<open>testName\<close> and \<open>filePath\<close> are each missing or empty after trimming,
  \<open>getTestHistory\<close> (of either client) throws its validation error with client and
  world untouched, so before any network call; the result is the very one of the call
  with neither field supplied. The tool \<open>executeGetTestHistory\<close> fails on such an
  input too, with client and world untouched.
\<close>

theorem test_history_requires_key:
  assumes "\<not> truthyStr (map_option trim (th_testName options))"
    and "\<not> truthyStr (map_option trim (th_filePath options))"
  shows "getTestHistory c w options =
           (throwError ''Either testName or filePath is required (and must not be empty)'', c, w)
         \<and> getTestHistory2 c w options =
           (throwError ''Either testName or filePath is required (and must not be empty)'', c, w)
         \<and> getTestHistory c w options
           = getTestHistory c w (options\<lparr>th_testName := None, th_filePath := None\<rparr>)
         \<and> getTestHistory2 c w options
           = getTestHistory2 c w (options\<lparr>th_testName := None, th_filePath := None\<rparr>)
         \<and> fails (fst (executeGetTestHistory getTestHistory c w options))
         \<and> snd (executeGetTestHistory getTestHistory c w options) = (c, w)
         \<and> fails (fst (executeGetTestHistory getTestHistory2 c w options))
         \<and> snd (executeGetTestHistory getTestHistory2 c w options) = (c, w)"
proof -
  let ?none = "options\<lparr>th_testName := None, th_filePath := None\<rparr>"
  have none: "\<not> truthyStr (map_option trim (th_testName ?none))"
    "\<not> truthyStr (map_option trim (th_filePath ?none))"
    by simp_all
  note a = getTestHistory_blank [OF assms, of c w]
  note b = getTestHistory_blank [OF none, of c w]
  note t1 = executeGetTestHistory_blank [OF assms, of getTestHistory c w]
  note t2 = executeGetTestHistory_blank [OF assms, of getTestHistory2 c w]
  from a b t1 t2 show ?thesis by simp
qed

theorem test_history_requires_key_witness:
  "getTestHistory userClient (alwaysResponds historyFound) (noOptions\<lparr>th_testName := Some ''   ''\<rparr>)
     = getTestHistory userClient (alwaysResponds historyFound) noOptions
   \<and> getTestHistory2 projectClient (alwaysResponds historyFound)
        (noOptions\<lparr>th_testName := Some ''   ''\<rparr>)
     = (throwError ''Either testName or filePath is required (and must not be empty)'',
        projectClient, alwaysResponds historyFound)
   \<and> fails (fst (executeGetTestHistory getTestHistory2 projectClient (alwaysResponds historyFound)
        (noOptions\<lparr>th_testName := Some ''   ''\<rparr>)))
   \<and> snd (executeGetTestHistory getTestHistory2 projectClient (alwaysResponds historyFound)
        (noOptions\<lparr>th_testName := Some ''   ''\<rparr>))
     = (projectClient, alwaysResponds historyFound)"
proof -
  note u = test_history_requires_key [OF noOptions_blank(1,2), of userClient
      "alwaysResponds historyFound"]
  note p = test_history_requires_key [OF noOptions_blank(1,2), of projectClient
      "alwaysResponds historyFound"]
  have "getTestHistory userClient (alwaysResponds historyFound)
          (noOptions\<lparr>th_testName := Some ''   ''\<rparr>)
        = getTestHistory userClient (alwaysResponds historyFound) noOptions"
    using u unfolding noOptions_blank(3) by blast
  with p show ?thesis by blast
qed

section \<open>Nullable fields of the test history\<close>

text \<open>
  C8 (as amended). When the client method returns a test-history body, the tool returns
  its reshaping. In it \<open>branch\<close> and \<open>commitSha\<close> of every entry and \<open>passRate\<close>
  of the summary are the upstream fields unchanged, whether absent, null or present.
  The \<open>message\<close> of an entry goes through \<open>|| undefined\<close>: a non-empty message is
  kept, an absent one stays absent, and a null or empty one comes out absent.
\<close>

theorem history_fields_round_trip:
  assumes "truthyStr (th_testName input) \<or> truthyStr (th_filePath input)"
    and "historyMethod c w
           \<lparr>th_projectId = th_projectId input, th_testName = th_testName input,
            th_filePath = th_filePath input,
            th_limit = Some (orNum (th_limit input) (Num 20))\<rparr>
         = (Returns (TestHistoryBody response), c1, w1)"
  shows "executeGetTestHistory historyMethod c w input
           = (Returns (reshapeResponse response), c1, w1)
         \<and> map out_branch (out_history (reshapeResponse response))
             = map branch (history response)
         \<and> map out_commitSha (out_history (reshapeResponse response))
             = map commitSha (history response)
         \<and> out_passRate (out_summary (reshapeResponse response))
             = passRate (summary response)
         \<and> map out_message (out_history (reshapeResponse response))
             = map (\<lambda>entry. orUndefined (test_message (test entry))) (history response)
         \<and> orUndefined Absent = Absent
         \<and> orUndefined Null = Absent
         \<and> orUndefined (Present []) = Absent
         \<and> (\<forall>s. s \<noteq> [] \<longrightarrow> orUndefined (Present s) = Present s)"
proof (intro conjI)
  show "executeGetTestHistory historyMethod c w input
           = (Returns (reshapeResponse response), c1, w1)"
    using assms by (rule executeGetTestHistory_returns)
qed (simp_all add: reshapeResponse_def reshapeEntry_def orUndefined_cases comp_def)

theorem history_fields_round_trip_witness:
  "executeGetTestHistory getTestHistory userClient (alwaysResponds historyFound) historyInput
     = (Returns (reshapeResponse sampleHistory), userClient,
        (alwaysResponds historyFound)
          \<lparr>fetched := [requestCall userClient ''/user/projects/proj_1/test-history''
             (Some [(''testName'', QStr ''logs in''), (''limit'', QNum (Num 20))])]\<rparr>)
   \<and> map out_branch (out_history (reshapeResponse sampleHistory)) = [Absent]
   \<and> map out_commitSha (out_history (reshapeResponse sampleHistory)) = [Null]
   \<and> out_passRate (out_summary (reshapeResponse sampleHistory)) = Null"
  using history_fields_round_trip [where historyMethod = getTestHistory and c = userClient
      and w = "alwaysResponds historyFound", OF historyInput_named history_fetch]
  by (simp add: sampleHistory_def)

text \<open>
  The claim as first stated has a null \<open>message\<close> appear as null. The entry of
  \<open>sampleHistory\<close> carries \<open>message: null\<close> and \<open>commitSha: null\<close>; the output
  keeps the null \<open>commitSha\<close> and has no \<open>message\<close>.
\<close>

theorem message_null_counterexample:
  "test_message (test (hd (history sampleHistory))) = Null
   \<and> fst (executeGetTestHistory getTestHistory userClient (alwaysResponds historyFound)
           historyInput)
     = Returns
         \<lparr>out_history =
            [\<lparr>out_testRunId = ''run_1'', out_createdAt = ''2024-01-01T00:00:00Z'',
              out_branch = Absent, out_commitSha = Null, out_status = failed,
              out_durationMs = Num 12, out_message = Absent\<rparr>],
          out_summary =
            \<lparr>out_totalRuns = Num 1, out_passedRuns = Num 0, out_failedRuns = Num 1,
             out_passRate = Null\<rparr>\<rparr>"
  using executeGetTestHistory_returns [where historyMethod = getTestHistory and c = userClient
      and w = "alwaysResponds historyFound", OF historyInput_named history_fetch]
  by (simp add: sampleHistory_def reshapeResponse_def reshapeEntry_def orUndefined_def)

section \<open>Zero under truthiness spreads\<close>




end
